theory Spec2Isabelle
  imports Main "HOL-Library.Sublist"
begin

text \<open>
  The request layer of the Visual ERP frontend: the enhanced API service with its retry
  loop, offline queue and mock fallback (\<open>src/lib/api-enhanced.js\<close>), the authentication
  provider that keeps the session (\<open>components/AuthProvider.jsx\<close>) and the submission of
  the quote form (\<open>components/QuoteCRUD.jsx\<close>). Asynchronous calls are modelled by what
  they do between their awaits, threading the service, the storage and an event trace.
\<close>

section \<open>JavaScript values\<close>

text \<open>
  JSON values as \<open>response.json()\<close> yields them. A property that is absent (JavaScript's
  \<open>undefined\<close>) is \<open>None\<close> where a property is read. A number is named by the text
  JavaScript prints for it (the shortest decimal form that reads back as the same
  double, \<open>0\<close> for both zeros): the program tests numbers for truth and prints them, and
  computes with none.
\<close>

datatype json =
    JNull
  | JBool bool
  | JNum string
  | JStr string
  | JArr "json list"
  | JObj "(string \<times> json) list"

text \<open>What a \<open>throw\<close> carries: an \<open>Error\<close> object with its message, or \<open>undefined\<close>.\<close>

datatype thrown = Error string | Undefined

text \<open>JavaScript truthiness, as \<open>if (v)\<close>, \<open>a && b\<close> and \<open>a || b\<close> test it.\<close>

fun truthy :: "json \<Rightarrow> bool" where
  "truthy JNull = False"
| "truthy (JBool b) = b"
| "truthy (JNum text) = (text \<noteq> ''0'')"
| "truthy (JStr s) = (s \<noteq> [])"
| "truthy (JArr xs) = True"
| "truthy (JObj kvs) = True"

definition truthy_opt :: "json option \<Rightarrow> bool" where
  "truthy_opt v = (case v of None \<Rightarrow> False | Some x \<Rightarrow> truthy x)"

text \<open>
  Reading \<open>v.k\<close> for one of the keys this program reads (\<open>message\<close>, \<open>token\<close>, \<open>user\<close>,
  \<open>success\<close>): on \<open>null\<close> the read throws a TypeError (the message is V8's), on an object
  it is the property or \<open>undefined\<close>, on any other value it is \<open>undefined\<close>.
\<close>

definition null_read :: "string \<Rightarrow> string" where
  "null_read k = ''Cannot read properties of null (reading '' @ [CHR 39] @ k @ [CHR 39] @ '')''"

fun get :: "json \<Rightarrow> string \<Rightarrow> string + json option" where
  "get JNull k = Inl (null_read k)"
| "get (JObj kvs) k = Inr (map_of kvs k)"
| "get v k = Inr None"

text \<open>Decimal digits of a natural number, as a template literal prints \<open>response.status\<close>.\<close>

fun digits :: "nat \<Rightarrow> string" where
  "digits n =
     (if n < 10 then [''0123456789'' ! n]
      else digits (n div 10) @ [''0123456789'' ! (n mod 10)])"

declare digits.simps [simp del]

fun join :: "string list \<Rightarrow> string" where
  "join [] = ''''"
| "join [s] = s"
| "join (s # t # ss) = s @ '','' @ join (t # ss)"

text \<open>
  String conversion, as a template literal and \<open>localStorage.setItem\<close> apply it. An
  array joins its elements with commas, \<open>null\<close> elements printing as the empty string.
\<close>

fun to_str :: "json \<Rightarrow> string" where
  "to_str JNull = ''null''"
| "to_str (JBool b) = (if b then ''true'' else ''false'')"
| "to_str (JNum text) = text"
| "to_str (JStr s) = s"
| "to_str (JArr xs) = join (map (\<lambda>x. if x = JNull then '''' else to_str x) xs)"
| "to_str (JObj kvs) = ''[object Object]''"

text \<open>\<open>s.includes(sub)\<close>: \<open>sub\<close> occurs in \<open>s\<close> as a contiguous run.\<close>

definition str_includes :: "string \<Rightarrow> string \<Rightarrow> bool" where
  "str_includes s sub = sublist sub s"

section \<open>The network and the event trace\<close>

text \<open>
  What \<open>fetch\<close> settles to: it rejects with an error message, or resolves to a response
  with a status, a status text and a body that \<open>response.json()\<close> parses or rejects.
  \<open>response.ok\<close> is the Fetch standard's: the status is in 200..299.
\<close>

datatype parsed = Unparsable string | Parsed json

record response =
  status :: nat
  statusText :: string
  json_result :: parsed

definition ok :: "response \<Rightarrow> bool" where
  "ok r = (200 \<le> status r \<and> status r \<le> 299)"

datatype fetch_result = Rejects string | Responds response

text \<open>The second argument of \<open>fetch\<close>. A request body is kept as the value it serialises.\<close>

record config =
  headers :: "string \<rightharpoonup> string"
  http_method :: "string option"
  body :: "json option"

record options =
  opt_headers :: "(string \<rightharpoonup> string) option"
  opt_method :: "string option"
  opt_body :: "json option"

definition no_options :: options where
  "no_options = \<lparr>opt_headers = None, opt_method = None, opt_body = None\<rparr>"

text \<open>
  Everything the client does to the outside, in order: a \<open>fetch\<close>, a \<open>setTimeout\<close> wait
  of so many milliseconds, and the settling of a queued request's promise, named by the
  number it got when it was created.
\<close>

datatype event =
    Fetch string config
  | Delay nat
  | Resolve nat json
  | Reject nat thrown

text \<open>
  The world: the number of \<open>fetch\<close> calls made, the number of queue promises created and
  the trace. The network is a function from the index of a \<open>fetch\<close> call to its outcome,
  so every behaviour of a backend is one such function.
\<close>

record world =
  calls :: nat
  promises :: nat
  trace :: "event list"

definition fetch :: "(nat \<Rightarrow> fetch_result) \<Rightarrow> string \<Rightarrow> config \<Rightarrow> world \<Rightarrow> fetch_result \<times> world" where
  "fetch net url cfg w = (net (calls w), w\<lparr>calls := calls w + 1, trace := trace w @ [Fetch url cfg]\<rparr>)"

definition sleep :: "nat \<Rightarrow> world \<Rightarrow> world" where
  "sleep ms w = w\<lparr>trace := trace w @ [Delay ms]\<rparr>"

section \<open>EnhancedAPIService (src/lib/api-enhanced.js)\<close>

record queued =
  q_url :: string
  q_config :: config
  q_handle :: nat

record client =
  baseURL :: string
  apiKey :: json
  retryAttempts :: nat
  retryDelay :: nat
  requestQueue :: "queued list"
  isOnline :: bool

text \<open>The constructor: the two environment variables, each with its fallback, and \<open>navigator.onLine\<close>.\<close>

definition new_client :: "string option \<Rightarrow> string option \<Rightarrow> bool \<Rightarrow> client" where
  "new_client vite_api_url vite_api_key online =
     \<lparr>baseURL = (case vite_api_url of None \<Rightarrow> ''http://localhost:3000''
                  | Some u \<Rightarrow> if u = [] then ''http://localhost:3000'' else u),
      apiKey = JStr (case vite_api_key of None \<Rightarrow> '''' | Some k \<Rightarrow> k),
      retryAttempts = 3,
      retryDelay = 1000,
      requestQueue = [],
      isOnline = online\<rparr>"

text \<open>
  What an async call has come to when its synchronous and awaited work is done: it
  resolved, it rejected, or it is waiting for the queued promise of that number.
\<close>

datatype 'a promise = Resolved 'a | Rejected thrown | Pending nat

text \<open>
  The request configuration of \<open>makeRequest\<close>: the default headers, the Authorization
  header when \<open>apiKey\<close> is truthy, then \<open>options.headers\<close>; the spread of \<open>options\<close> comes
  last, so a \<open>headers\<close> key of \<open>options\<close> replaces the merged headers.
\<close>

definition build_config :: "client \<Rightarrow> options \<Rightarrow> config" where
  "build_config c opts =
     (let merged = [''Content-Type'' \<mapsto> ''application/json'']
            ++ (if truthy (apiKey c) then [''Authorization'' \<mapsto> ''Bearer '' @ to_str (apiKey c)] else Map.empty)
            ++ (case opt_headers opts of None \<Rightarrow> Map.empty | Some h \<Rightarrow> h)
      in \<lparr>headers = (case opt_headers opts of None \<Rightarrow> merged | Some h \<Rightarrow> h),
          http_method = opt_method opts,
          body = opt_body opts\<rparr>)"

text \<open>
  The \<open>try\<close> block of one attempt, after \<open>fetch\<close> settled: \<open>Inr\<close> the parsed data it
  returns, \<open>Inl\<close> the message of the error it throws.
\<close>

definition http_error :: "response \<Rightarrow> string + json" where
  "http_error r =
     (let errorData = (case json_result r of Unparsable m \<Rightarrow> JObj [] | Parsed j \<Rightarrow> j)
      in case get errorData ''message'' of
           Inl type_error \<Rightarrow> Inl type_error
         | Inr msg \<Rightarrow>
             Inl (''HTTP error! status: '' @ digits (status r) @ '', message: ''
                  @ (if truthy_opt msg then to_str (the msg) else statusText r)))"

definition attempt_result :: "fetch_result \<Rightarrow> string + json" where
  "attempt_result fr =
     (case fr of
        Rejects m \<Rightarrow> Inl m
      | Responds r \<Rightarrow>
          if \<not> ok r then http_error r
          else (case json_result r of Unparsable m \<Rightarrow> Inl m | Parsed data \<Rightarrow> Inr data))"

text \<open>The test of the \<open>catch\<close> block: "Don't retry on authentication errors".\<close>

definition auth_error :: "string \<Rightarrow> bool" where
  "auth_error m = (str_includes m ''401'' \<or> str_includes m ''403'')"

text \<open>
  The retry loop of \<open>makeRequest\<close>, from attempt number \<open>attempt\<close> with the \<open>lastError\<close>
  so far, and the \<open>throw lastError\<close> behind it.
\<close>

function attempts ::
  "(nat \<Rightarrow> fetch_result) \<Rightarrow> client \<Rightarrow> string \<Rightarrow> config \<Rightarrow> nat \<Rightarrow> thrown \<Rightarrow> world \<Rightarrow> (thrown + json) \<times> world"
where
  "attempts net c url cfg attempt lastError w =
     (if attempt \<le> retryAttempts c then
        (let (fr, w1) = fetch net url cfg w in
         case attempt_result fr of
           Inr data \<Rightarrow> (Inr data, w1)
         | Inl m \<Rightarrow>
             if auth_error m then (Inl (Error m), w1)
             else attempts net c url cfg (attempt + 1) (Error m)
                    (if attempt < retryAttempts c then sleep (retryDelay c * attempt) w1 else w1))
      else (Inl lastError, w))"
  by pat_completeness auto
termination
  by (relation "measure (\<lambda>(net, c, url, cfg, attempt, lastError, w). Suc (retryAttempts c) - attempt)") auto

declare attempts.simps [simp del]

text \<open>\<open>queueRequest\<close>: a new promise whose \<open>resolve\<close> and \<open>reject\<close> go to the end of the queue.\<close>

definition queueRequest :: "client \<Rightarrow> string \<Rightarrow> config \<Rightarrow> world \<Rightarrow> nat \<times> client \<times> world" where
  "queueRequest c url cfg w =
     (promises w,
      c\<lparr>requestQueue := requestQueue c @ [\<lparr>q_url = url, q_config = cfg, q_handle = promises w\<rparr>]\<rparr>,
      w\<lparr>promises := promises w + 1\<rparr>)"

definition makeRequest ::
  "(nat \<Rightarrow> fetch_result) \<Rightarrow> client \<Rightarrow> string \<Rightarrow> options \<Rightarrow> world \<Rightarrow> json promise \<times> client \<times> world"
where
  "makeRequest net c endpoint opts w =
     (let url = baseURL c @ endpoint; cfg = build_config c opts in
      if \<not> isOnline c \<and> opt_method opts \<noteq> Some ''GET'' then
        (let (h, c', w') = queueRequest c url cfg w in (Pending h, c', w'))
      else
        (let (r, w') = attempts net c url cfg 1 Undefined w in
         (case r of Inl e \<Rightarrow> Rejected e | Inr data \<Rightarrow> Resolved data, c, w')))"

text \<open>
  \<open>processQueue\<close>: while the queue is not empty, take its first entry, fetch it once and
  settle its promise: \<open>replay_result\<close> is the \<open>try\<close>/\<open>catch\<close> (resolved with the parsed
  body, rejected with what \<open>fetch\<close> or \<open>response.json()\<close> threw), \<open>settle\<close> the call of the
  entry's \<open>resolve\<close> or \<open>reject\<close>. The trace is that of a drain no other call interleaves with.
\<close>

definition replay_result :: "fetch_result \<Rightarrow> thrown + json" where
  "replay_result fr =
     (case fr of
        Rejects m \<Rightarrow> Inl (Error m)
      | Responds r \<Rightarrow>
          (case json_result r of Unparsable m \<Rightarrow> Inl (Error m) | Parsed data \<Rightarrow> Inr data))"

definition settle :: "nat \<Rightarrow> thrown + json \<Rightarrow> event" where
  "settle h r = (case r of Inl e \<Rightarrow> Reject h e | Inr data \<Rightarrow> Resolve h data)"

definition replay :: "(nat \<Rightarrow> fetch_result) \<Rightarrow> queued \<Rightarrow> world \<Rightarrow> world" where
  "replay net q w =
     (let (fr, w1) = fetch net (q_url q) (q_config q) w
      in w1\<lparr>trace := trace w1 @ [settle (q_handle q) (replay_result fr)]\<rparr>)"

function processQueue :: "(nat \<Rightarrow> fetch_result) \<Rightarrow> client \<Rightarrow> world \<Rightarrow> client \<times> world" where
  "processQueue net c w =
     (if length (requestQueue c) > 0 then
        processQueue net (c\<lparr>requestQueue := tl (requestQueue c)\<rparr>) (replay net (hd (requestQueue c)) w)
      else (c, w))"
  by pat_completeness auto
termination
  by (relation "measure (\<lambda>(net, c, w). length (requestQueue c))") auto

declare processQueue.simps [simp del]

text \<open>The two listeners the constructor installs on \<open>window\<close>.\<close>

definition on_online :: "(nat \<Rightarrow> fetch_result) \<Rightarrow> client \<Rightarrow> world \<Rightarrow> client \<times> world" where
  "on_online net c w = processQueue net (c\<lparr>isOnline := True\<rparr>) w"

definition on_offline :: "client \<Rightarrow> client" where
  "on_offline c = c\<lparr>isOnline := False\<rparr>"

text \<open>
  An \<open>await\<close> on the promise \<open>makeRequest\<close> returned: the rest of the caller runs on the
  settled value, and a caller awaiting a queued promise is itself still pending.
\<close>

definition await :: "json promise \<Rightarrow> (thrown + json \<Rightarrow> 'a promise \<times> 's) \<Rightarrow> 's \<Rightarrow> 'a promise \<times> 's" where
  "await p k s =
     (case p of Pending h \<Rightarrow> (Pending h, s) | Resolved data \<Rightarrow> k (Inr data) | Rejected e \<Rightarrow> k (Inl e))"

text \<open>Reading \<open>error.message\<close> in a \<open>catch\<close> block: a TypeError when \<open>undefined\<close> was thrown.\<close>

definition undefined_read :: "string \<Rightarrow> string" where
  "undefined_read k = ''Cannot read properties of undefined (reading '' @ [CHR 39] @ k @ [CHR 39] @ '')''"

fun message :: "thrown \<Rightarrow> string + string" where
  "message (Error m) = Inr m"
| "message Undefined = Inl (undefined_read ''message'')"

subsection \<open>Authentication\<close>

text \<open>
  \<open>authenticate\<close>, from the point where the login request has settled: the token of the
  response, when truthy, becomes \<open>apiKey\<close>; whatever the \<open>try\<close> block throws is rethrown
  as "Authentication failed: ...".
\<close>

definition authenticate_settled :: "client \<Rightarrow> thrown + json \<Rightarrow> json promise \<times> client" where
  "authenticate_settled c r =
     (let caught = (\<lambda>e. case message e of
                          Inl type_error \<Rightarrow> (Rejected (Error type_error), c)
                        | Inr m \<Rightarrow> (Rejected (Error (''Authentication failed: '' @ m)), c))
      in case r of
           Inl e \<Rightarrow> caught e
         | Inr response \<Rightarrow>
             (case get response ''token'' of
                Inl type_error \<Rightarrow> caught (Error type_error)
              | Inr token \<Rightarrow>
                  (Resolved response, if truthy_opt token then c\<lparr>apiKey := the token\<rparr> else c)))"

definition authenticate ::
  "(nat \<Rightarrow> fetch_result) \<Rightarrow> client \<Rightarrow> json \<Rightarrow> world \<Rightarrow> (json promise \<times> client) \<times> world"
where
  "authenticate net c credentials w =
     (let (p, c', w') = makeRequest net c ''/api/auth/login''
                          \<lparr>opt_headers = None, opt_method = Some ''POST'', opt_body = Some credentials\<rparr> w
      in (await p (authenticate_settled c') c', w'))"

text \<open>
  \<open>localStorage\<close>, at the two keys the program uses. The user entry is a string: the
  serialisation of a JSON value (\<open>JSON.parse\<close> gives the value back), or a string that
  \<open>JSON.parse\<close> rejects.
\<close>

datatype stored = Serialized json | Raw string

record storage =
  visual_erp_token :: "string option"
  visual_erp_user :: "stored option"

definition refreshToken_settled :: "client \<times> storage \<Rightarrow> thrown + json \<Rightarrow> json promise \<times> client \<times> storage" where
  "refreshToken_settled s r =
     (let (c, st) = s;
          caught = (\<lambda>e. (Rejected e, c\<lparr>apiKey := JStr []\<rparr>,
                          st\<lparr>visual_erp_token := None, visual_erp_user := None\<rparr>))
      in case r of
           Inl e \<Rightarrow> caught e
         | Inr response \<Rightarrow>
             (case get response ''token'' of
                Inl type_error \<Rightarrow> caught (Error type_error)
              | Inr token \<Rightarrow>
                  (Resolved response,
                   if truthy_opt token
                   then (c\<lparr>apiKey := the token\<rparr>, st\<lparr>visual_erp_token := Some (to_str (the token))\<rparr>)
                   else (c, st))))"

definition refreshToken ::
  "(nat \<Rightarrow> fetch_result) \<Rightarrow> client \<times> storage \<Rightarrow> world \<Rightarrow> (json promise \<times> client \<times> storage) \<times> world"
where
  "refreshToken net s w =
     (let (c, st) = s;
          (p, c', w') = makeRequest net c ''/api/auth/refresh''
                          \<lparr>opt_headers = None, opt_method = Some ''POST'', opt_body = None\<rparr> w
      in (await p (refreshToken_settled (c', st)) (c', st), w'))"

definition testConnection_settled :: "thrown + json \<Rightarrow> json promise" where
  "testConnection_settled r =
     (case r of
        Inr response \<Rightarrow> Resolved (JObj [(''success'', JBool True), (''data'', response)])
      | Inl e \<Rightarrow>
          (case message e of
             Inl type_error \<Rightarrow> Rejected (Error type_error)
           | Inr m \<Rightarrow> Resolved (JObj [(''success'', JBool False), (''error'', JStr m)])))"

definition testConnection ::
  "(nat \<Rightarrow> fetch_result) \<Rightarrow> client \<Rightarrow> world \<Rightarrow> (json promise \<times> client) \<times> world"
where
  "testConnection net c w =
     (if baseURL c = [] \<or> baseURL c = ''http://localhost:3000'' then
        ((Resolved (JObj [(''success'', JBool True), (''mockData'', JBool True),
                          (''message'', JStr ''Using mock data'')]), c), w)
      else
        (let (p, c', w') = makeRequest net c ''/api/health'' no_options w
         in (await p (\<lambda>r. (testConnection_settled r, c')) c', w')))"

subsection \<open>Inventory: the list call and its mock data\<close>

text \<open>
  \<open>getMockProducts\<close>. Each \<open>new Date().toISOString()\<close> is one reading of the clock, in the
  order the object literal evaluates them.
\<close>

definition getMockProducts :: "(nat \<Rightarrow> string) \<Rightarrow> json" where
  "getMockProducts clock =
     JObj [(''success'', JBool True),
           (''products'', JArr [
              JObj [(''id'', JNum ''1''),
                    (''name'', JStr ''Premium Hemp Flower - Strain A''),
                    (''sku'', JStr ''HF-001''),
                    (''status'', JStr ''Active''),
                    (''stockOnHand'', JNum ''275''),
                    (''batches'', JNum ''2''),
                    (''category'', JStr ''Hemp Flower''),
                    (''price'', JNum ''45''),
                    (''cost'', JNum ''25''),
                    (''description'', JStr ''High-quality hemp flower with excellent terpene profile''),
                    (''imageUrl'', JNull),
                    (''createdAt'', JStr (clock 0)),
                    (''updatedAt'', JStr (clock 1))],
              JObj [(''id'', JNum ''2''),
                    (''name'', JStr ''CBD Oil Tincture - 1000mg''),
                    (''sku'', JStr ''CBD-1000''),
                    (''status'', JStr ''Active''),
                    (''stockOnHand'', JNum ''150''),
                    (''batches'', JNum ''3''),
                    (''category'', JStr ''CBD Products''),
                    (''price'', JNum ''89.99''),
                    (''cost'', JNum ''35''),
                    (''description'', JStr ''Full-spectrum CBD oil tincture''),
                    (''imageUrl'', JNull),
                    (''createdAt'', JStr (clock 2)),
                    (''updatedAt'', JStr (clock 3))],
              JObj [(''id'', JNum ''3''),
                    (''name'', JStr ''Hemp Gummies - Mixed Berry''),
                    (''sku'', JStr ''HG-MB-25''),
                    (''status'', JStr ''Active''),
                    (''stockOnHand'', JNum ''89''),
                    (''batches'', JNum ''1''),
                    (''category'', JStr ''Edibles''),
                    (''price'', JNum ''34.99''),
                    (''cost'', JNum ''12''),
                    (''description'', JStr ''Delicious hemp-infused gummies''),
                    (''imageUrl'', JNull),
                    (''createdAt'', JStr (clock 4)),
                    (''updatedAt'', JStr (clock 5))]])]"

text \<open>
  \<open>getProducts\<close>, from the point where the request has settled: a response with a truthy
  \<open>success\<close> is returned as it is, any other response is wrapped as the product list,
  and whatever is thrown (by the request, or by reading \<open>success\<close> of \<open>null\<close>) is
  answered with the mock data. \<open>getCustomers\<close> and \<open>getQuotes\<close> are the same code over
  their endpoint, key and mock method.
\<close>

definition getProducts_settled :: "(nat \<Rightarrow> string) \<Rightarrow> thrown + json \<Rightarrow> json" where
  "getProducts_settled clock r =
     (case r of
        Inl e \<Rightarrow> getMockProducts clock
      | Inr response \<Rightarrow>
          (case get response ''success'' of
             Inl type_error \<Rightarrow> getMockProducts clock
           | Inr success \<Rightarrow>
               if truthy_opt success then response
               else JObj [(''success'', JBool True), (''products'', response)]))"

text \<open>\<open>queryParams\<close> is \<open>new URLSearchParams(filters).toString()\<close>, the encoded filters.\<close>

definition getProducts ::
  "(nat \<Rightarrow> fetch_result) \<Rightarrow> (nat \<Rightarrow> string) \<Rightarrow> client \<Rightarrow> string \<Rightarrow> world \<Rightarrow> (json promise \<times> client) \<times> world"
where
  "getProducts net clock c queryParams w =
     (let endpoint = ''/api/inventory/products'' @ (if queryParams \<noteq> [] then ''?'' @ queryParams else []);
          (p, c', w') = makeRequest net c endpoint no_options w
      in (await p (\<lambda>r. (Resolved (getProducts_settled clock r), c')) c', w'))"

section \<open>AuthProvider (components/AuthProvider.jsx)\<close>

text \<open>
  The provider's React state, the storage and the API service it writes \<open>apiKey\<close> of.
  The provider sees the service through two calls, \<open>testConnection\<close> and \<open>authenticate\<close>;
  each transition takes what that call came to, and the service as the call left it.
\<close>

record auth =
  isAuthenticated :: bool
  user :: json
  isLoading :: bool
  error :: "string option"

definition initial_auth :: auth where
  "initial_auth = \<lparr>isAuthenticated = False, user = JNull, isLoading = True, error = None\<rparr>"

type_synonym session = "auth \<times> storage \<times> client"



definition login :: "json promise \<Rightarrow> session \<Rightarrow> json promise \<times> session" where
  "login authenticated s =
     (let (a, st, c) = s;
          a1 = a\<lparr>isLoading := True, error := None\<rparr>;
          caught = (\<lambda>e. case message e of
                          Inl type_error \<Rightarrow> (Rejected (Error type_error), a1\<lparr>isLoading := False\<rparr>, st, c)
                        | Inr m \<Rightarrow>
                            (Resolved (JObj [(''success'', JBool False), (''error'', JStr m)]),
                             a1\<lparr>error := Some (if m \<noteq> [] then m else ''Login failed''), isLoading := False\<rparr>,
                             st, c));
          invalid = Error ''Invalid response from authentication server''
      in case authenticated of
           Pending h \<Rightarrow> (Pending h, a1, st, c)
         | Rejected e \<Rightarrow> caught e
         | Resolved response \<Rightarrow>
             (case get response ''token'' of
                Inl type_error \<Rightarrow> caught (Error type_error)
              | Inr token \<Rightarrow>
                  if \<not> truthy_opt token then caught invalid
                  else (case get response ''user'' of
                          Inl type_error \<Rightarrow> caught (Error type_error)
                        | Inr usr \<Rightarrow>
                            if \<not> truthy_opt usr then caught invalid
                            else (Resolved (JObj [(''success'', JBool True)]),
                                  a1\<lparr>isAuthenticated := True, user := the usr, isLoading := False\<rparr>,
                                  st\<lparr>visual_erp_token := Some (to_str (the token)),
                                     visual_erp_user := Some (Serialized (the usr))\<rparr>,
                                  c\<lparr>apiKey := the token\<rparr>))))"


section \<open>QuoteCRUD (components/QuoteCRUD.jsx)\<close>

text \<open>
  A string of the form is a sequence of UTF-16 code units, as JavaScript has it.
\<close>

type_synonym ustring = "nat list"

text \<open>
  A line item. What its fields hold is left open (\<open>'v\<close>): the inputs of the form store
  numbers, a quote loaded for editing brings whatever the backend sent.
\<close>

record 'v line_item =
  productId :: 'v
  productName :: 'v
  quantity :: 'v
  unitPrice :: 'v

text \<open>
  The form state: the five fields the component keeps, and any other own property the
  object may hold, which the spread \<open>...formData\<close> copies as well.
\<close>

record 'v formData =
  title :: ustring
  customerId :: ustring
  quote_status :: ustring
  validUntil :: ustring
  lineItems :: "'v line_item list"
  others :: "string \<rightharpoonup> json"

text \<open>
  JavaScript's arithmetic, taken as it is and not computed here: the number \<open>0\<close>, \<open>+\<close> on
  two numbers and \<open>*\<close> on two values (each converted to a number first, the result
  rounded as IEEE doubles are).
\<close>

record ('v, 'n) arithmetic =
  js_zero :: 'n
  js_add :: "'n \<Rightarrow> 'n \<Rightarrow> 'n"
  js_mul :: "'v \<Rightarrow> 'v \<Rightarrow> 'n"

text \<open>A property of the object \<open>handleSubmit\<close> sends. \<open>parseInt\<close> is kept as the call it is.\<close>

datatype ('v, 'n) property =
    Text ustring
  | Number 'n
  | ParseInt ustring
  | Items "'v line_item list"
  | Other json

text \<open>
  The code units \<open>String.prototype.trim\<close> strips: ECMAScript's white space and line
  terminators.
\<close>

definition is_space :: "nat \<Rightarrow> bool" where
  "is_space u =
     (u \<in> {9, 10, 11, 12, 13, 32, 160, 5760, 8232, 8233, 8239, 8287, 12288, 65279}
      \<or> (8192 \<le> u \<and> u \<le> 8202))"

definition trim :: "ustring \<Rightarrow> ustring" where
  "trim s = rev (dropWhile is_space (rev (dropWhile is_space s)))"

text \<open>\<open>validateForm\<close>: the error messages by field; the form is valid when there are none.\<close>

definition validateForm :: "'v formData \<Rightarrow> (string \<times> string) list" where
  "validateForm f =
     (if trim (title f) = [] then [(''title'', ''Quote title is required'')] else [])
     @ (if customerId f = [] then [(''customerId'', ''Customer is required'')] else [])
     @ (if validUntil f = [] then [(''validUntil'', ''Valid until date is required'')] else [])
     @ (if length (lineItems f) = 0 then [(''lineItems'', ''At least one line item is required'')] else [])"

text \<open>The object spread: every own property of the form state.\<close>

definition spread :: "'v formData \<Rightarrow> (string \<rightharpoonup> ('v, 'n) property)" where
  "spread f =
     (map_option Other \<circ> others f)
       (''title'' \<mapsto> Text (title f),
        ''customerId'' \<mapsto> Text (customerId f),
        ''status'' \<mapsto> Text (quote_status f),
        ''validUntil'' \<mapsto> Text (validUntil f),
        ''lineItems'' \<mapsto> Items (lineItems f))"

text \<open>
  \<open>quoteData\<close>: the spread, then \<open>customerId\<close> and \<open>total\<close>; the total is the \<open>reduce\<close> over
  the line items, from \<open>0\<close>, left to right.
\<close>

definition quoteData :: "('v, 'n) arithmetic \<Rightarrow> 'v formData \<Rightarrow> (string \<rightharpoonup> ('v, 'n) property)" where
  "quoteData ar f =
     (spread f)
       (''customerId'' \<mapsto> ParseInt (customerId f),
        ''total'' \<mapsto> Number (foldl (\<lambda>sum item. js_add ar sum (js_mul ar (quantity item) (unitPrice item)))
                                    (js_zero ar) (lineItems f)))"

text \<open>
  \<open>handleSubmit\<close>, up to the request it makes: nothing when validation fails, otherwise
  \<open>updateQuote\<close> with the id of the quote being edited (\<open>editingQuote\<close> is \<open>null\<close> or a
  quote of the list), or \<open>createQuote\<close>, on \<open>quoteData\<close>. What follows the request (the
  reload, the form reset, the error banner) is display state.
\<close>

datatype ('v, 'n) submission =
    UpdateQuote "json option" "string \<rightharpoonup> ('v, 'n) property"
  | CreateQuote "string \<rightharpoonup> ('v, 'n) property"

definition handleSubmit ::
  "('v, 'n) arithmetic \<Rightarrow> json option \<Rightarrow> 'v formData \<Rightarrow> ('v, 'n) submission option"
where
  "handleSubmit ar editingQuote f =
     (if validateForm f \<noteq> [] then None
      else if truthy_opt editingQuote
           then Some (UpdateQuote (case get (the editingQuote) ''id'' of Inr i \<Rightarrow> i | Inl type_error \<Rightarrow> None)
                        (quoteData ar f))
           else Some (CreateQuote (quoteData ar f)))"

section \<open>Reference traces and sample inputs\<close>

text \<open>
  The drain as a fold over the queue, and the events a drain of the queue \<open>qs\<close> leaves
  when its first \<open>fetch\<close> is the \<open>k\<close>-th of the world: for each entry, in order, its
  \<open>fetch\<close> and the settling of its promise.
\<close>

primrec drain :: "(nat \<Rightarrow> fetch_result) \<Rightarrow> queued list \<Rightarrow> world \<Rightarrow> world" where
  "drain net [] w = w"
| "drain net (q # qs) w = drain net qs (replay net q w)"

definition replay_events :: "(nat \<Rightarrow> fetch_result) \<Rightarrow> queued list \<Rightarrow> nat \<Rightarrow> event list" where
  "replay_events net qs k =
     concat (map (\<lambda>i. [Fetch (q_url (qs ! i)) (q_config (qs ! i)),
                        settle (q_handle (qs ! i)) (replay_result (net (k + i)))])
                 [0..<length qs])"

text \<open>
  The message of the error an attempt throws on a \<open>fetch\<close> outcome; a transient failure
  is a rejected \<open>fetch\<close> or a 5xx response; the events of the attempts \<open>a\<close> to \<open>n\<close> when each
  one fails and is retried: a \<open>fetch\<close>, then the wait unless the attempt is the last.
\<close>

definition failure_message :: "fetch_result \<Rightarrow> string" where
  "failure_message fr = (case attempt_result fr of Inl m \<Rightarrow> m | Inr data \<Rightarrow> [])"

definition transient :: "fetch_result \<Rightarrow> bool" where
  "transient fr = (case fr of Rejects m \<Rightarrow> True | Responds r \<Rightarrow> 500 \<le> status r \<and> status r \<le> 599)"

definition retry_events :: "string \<Rightarrow> config \<Rightarrow> nat \<Rightarrow> nat \<Rightarrow> nat \<Rightarrow> event list" where
  "retry_events url cfg n d a =
     concat (map (\<lambda>j. Fetch url cfg # (if j < n then [Delay (d * j)] else [])) [a..<Suc n])"

text \<open>The object a submission carries.\<close>

fun payload :: "('v, 'n) submission \<Rightarrow> (string \<rightharpoonup> ('v, 'n) property)" where
  "payload (UpdateQuote i d) = d"
| "payload (CreateQuote d) = d"



text \<open>Requests made one after the other, each by \<open>makeRequest\<close> on its endpoint and options.\<close>

fun issue ::
  "(nat \<Rightarrow> fetch_result) \<Rightarrow> (string \<times> options) list \<Rightarrow> client \<Rightarrow> world
     \<Rightarrow> json promise list \<times> client \<times> world"
where
  "issue net [] c w = ([], c, w)"
| "issue net (r # rs) c w =
     (let (p, c1, w1) = makeRequest net c (fst r) (snd r) w;
          (ps, c2, w2) = issue net rs c1 w1
      in (p # ps, c2, w2))"

text \<open>
  Networks: one that answers every \<open>fetch\<close> alike, and one that answers from a list and
  then fails. A response by status, status text and body.
\<close>

definition always :: "fetch_result \<Rightarrow> nat \<Rightarrow> fetch_result" where
  "always fr i = fr"

definition replies :: "fetch_result list \<Rightarrow> nat \<Rightarrow> fetch_result" where
  "replies frs i = (if i < length frs then frs ! i else Rejects ''Failed to fetch'')"

definition reply :: "nat \<Rightarrow> string \<Rightarrow> parsed \<Rightarrow> fetch_result" where
  "reply code text b = Responds \<lparr>status = code, statusText = text, json_result = b\<rparr>"

text \<open>
  Clients as the constructor builds them: a deployment with a backend URL and a key, the
  defaults of a development machine, and the same while offline. A fresh world, a clock
  that stands still, an empty storage.
\<close>

definition production :: client where
  "production = new_client (Some ''https://erp.example.com'') (Some ''key-1'') True"

definition dev :: client where
  "dev = new_client None None True"

definition offline :: client where
  "offline = new_client None None False"

definition start :: world where
  "start = \<lparr>calls = 0, promises = 0, trace = []\<rparr>"

definition noon :: "nat \<Rightarrow> string" where
  "noon i = ''2025-06-01T12:00:00.000Z''"

definition no_storage :: storage where
  "no_storage = \<lparr>visual_erp_token = None, visual_erp_user = None\<rparr>"

definition one_queued :: client where
  "one_queued = production
     \<lparr>requestQueue :=
        [\<lparr>q_url = ''https://erp.example.com/api/quotes'', q_config = build_config production no_options, q_handle = 7\<rparr>]\<rparr>"

text \<open>
  Two writes made while offline, and the service after them; a session after a login.
\<close>

definition two_writes :: "(string \<times> options) list" where
  "two_writes =
     [(''/api/quotes'', \<lparr>opt_headers = None, opt_method = Some ''POST'', opt_body = Some (JObj [(''title'', JStr ''Q1'')])\<rparr>),
      (''/api/customers/3'', \<lparr>opt_headers = None, opt_method = Some ''DELETE'', opt_body = None\<rparr>)]"

definition after_two_writes :: client where
  "after_two_writes = offline
     \<lparr>requestQueue :=
        [\<lparr>q_url = ''http://localhost:3000/api/quotes'', q_config = build_config offline (snd (two_writes ! 0)), q_handle = 0\<rparr>,
         \<lparr>q_url = ''http://localhost:3000/api/customers/3'', q_config = build_config offline (snd (two_writes ! 1)), q_handle = 1\<rparr>]\<rparr>"


text \<open>
  An arithmetic without rounding, as that of IEEE doubles is on integers of this size;
  the code units of an ASCII string; a form whose state holds a stale \<open>total\<close> beside its
  two line items.
\<close>

definition exact :: "(int, int) arithmetic" where
  "exact = \<lparr>js_zero = 0, js_add = (+), js_mul = (*)\<rparr>"

definition units :: "string \<Rightarrow> ustring" where
  "units s = map of_char s"

definition stale_form :: "int formData" where
  "stale_form =
     \<lparr>title = units ''Spring order'', customerId = units ''7'', quote_status = units ''Draft'',
      validUntil = units ''2025-07-01'',
      lineItems = [\<lparr>productId = 1, productName = 0, quantity = 2, unitPrice = 10\<rparr>,
                   \<lparr>productId = 2, productName = 0, quantity = 1, unitPrice = 5\<rparr>],
      others = [''total'' \<mapsto> JNum ''999'']\<rparr>"

section \<open>The queue drain\<close>

lemma processQueue_drain:
  "processQueue net c w = (c\<lparr>requestQueue := []\<rparr>, drain net (requestQueue c) w)"
proof (induction "requestQueue c" arbitrary: c w)
  case Nil
  then show ?case by (simp add: processQueue.simps[of net c w])
next
  case (Cons q qs)
  from Cons(2) have q: "requestQueue c = q # qs" by simp
  have "qs = requestQueue (c\<lparr>requestQueue := tl (requestQueue c)\<rparr>)" using q by simp
  from Cons(1)[OF this] show ?case
    by (simp add: processQueue.simps[of net c w] q)
qed

lemma replay_events_Nil: "replay_events net [] k = []"
  by (simp add: replay_events_def)

lemma replay_events_Cons:
  "replay_events net (q # qs) k =
     Fetch (q_url q) (q_config q) # settle (q_handle q) (replay_result (net k)) # replay_events net qs (Suc k)"
proof -
  have "[0..<length (q # qs)] = 0 # map Suc [0..<length qs]"
    by (simp add: upt_conv_Cons map_Suc_upt del: upt_Suc)
  then show ?thesis
    by (simp add: replay_events_def comp_def del: upt_Suc)
qed

lemma drain_calls: "calls (drain net qs w) = calls w + length qs"
  by (induction qs arbitrary: w) (simp_all add: replay_def fetch_def)

lemma drain_promises: "promises (drain net qs w) = promises w"
  by (induction qs arbitrary: w) (simp_all add: replay_def fetch_def)

lemma drain_trace: "trace (drain net qs w) = trace w @ replay_events net qs (calls w)"
  by (induction qs arbitrary: w) (simp_all add: replay_events_Nil replay_events_Cons replay_def fetch_def)

lemma replay_events_length: "length (replay_events net qs k) = 2 * length qs"
  by (induction qs arbitrary: k) (simp_all add: replay_events_Nil replay_events_Cons)

lemma replay_events_nth:
  "i < length qs \<Longrightarrow>
     replay_events net qs k ! (2 * i) = Fetch (q_url (qs ! i)) (q_config (qs ! i)) \<and>
     replay_events net qs k ! (2 * i + 1) = settle (q_handle (qs ! i)) (replay_result (net (k + i)))"
proof (induction qs arbitrary: i k)
  case Nil
  then show ?case by simp
next
  case (Cons q qs)
  show ?case
  proof (cases i)
    case 0
    then show ?thesis by (simp add: replay_events_Cons)
  next
    case (Suc j)
    with Cons.prems have "j < length qs" by simp
    from Cons.IH[OF this, of "Suc k"] Suc show ?thesis
      by (simp add: replay_events_Cons)
  qed
qed

lemma processQueue_run:
  "processQueue net c w =
     (c\<lparr>requestQueue := []\<rparr>,
      w\<lparr>calls := calls w + length (requestQueue c),
        trace := trace w @ replay_events net (requestQueue c) (calls w)\<rparr>)"
proof -
  have "drain net (requestQueue c) w =
      w\<lparr>calls := calls w + length (requestQueue c),
        trace := trace w @ replay_events net (requestQueue c) (calls w)\<rparr>"
    by (rule world.equality) (simp_all add: drain_calls drain_promises drain_trace)
  then show ?thesis by (simp add: processQueue_drain)
qed

text \<open>
  Claim C10. A replayed request is fetched once (no retry) and its promise is resolved
  with the parsed body whenever \<open>fetch\<close> and \<open>response.json()\<close> succeed, whatever the
  status; it is rejected only when \<open>fetch\<close> rejects or the body does not parse.
\<close>

theorem replayed_request_settlement:
  assumes "i < length (requestQueue c)"
  shows "let q = requestQueue c ! i;
             evs = drop (length (trace w)) (trace (snd (processQueue net c w)))
         in length evs = 2 * length (requestQueue c) \<and>
            evs ! (2 * i) = Fetch (q_url q) (q_config q) \<and>
            evs ! (2 * i + 1) =
              (case net (calls w + i) of
                 Rejects m \<Rightarrow> Reject (q_handle q) (Error m)
               | Responds r \<Rightarrow>
                   (case json_result r of
                      Unparsable m \<Rightarrow> Reject (q_handle q) (Error m)
                    | Parsed data \<Rightarrow> Resolve (q_handle q) data))"
proof -
  have "settle h (replay_result fr) =
      (case fr of
         Rejects m \<Rightarrow> Reject h (Error m)
       | Responds r \<Rightarrow>
           (case json_result r of
              Unparsable m \<Rightarrow> Reject h (Error m)
            | Parsed data \<Rightarrow> Resolve h data))" for h fr
    by (simp add: settle_def replay_result_def split: fetch_result.splits parsed.splits)
  with replay_events_nth[OF assms, of net "calls w"] show ?thesis
    by (simp add: processQueue_run replay_events_length Let_def)
qed

text \<open>A replay answered with status 500 and a JSON body resolves the promise with that body.\<close>

theorem replayed_request_settlement_witness:
  "(0::nat) < length (requestQueue one_queued) \<and>
   drop (length (trace start))
     (trace (snd (processQueue (always (reply 500 ''Internal Server Error'' (Parsed (JObj [(''error'', JStr ''boom'')]))))
        one_queued start))) ! 1 = Resolve 7 (JObj [(''error'', JStr ''boom'')])"
proof -
  have h: "(0::nat) < length (requestQueue one_queued)" by (simp add: one_queued_def)
  show ?thesis
    using h replayed_request_settlement[OF h, of start "always (reply 500 ''Internal Server Error'' (Parsed (JObj [(''error'', JStr ''boom'')])))"]
    by (simp add: Let_def one_queued_def always_def reply_def start_def)
qed

section \<open>The retry loop\<close>

lemma retry_events_step:
  "a \<le> n \<Longrightarrow> retry_events url cfg n d a =
     Fetch url cfg # (if a < n then [Delay (d * a)] else []) @ retry_events url cfg n d (Suc a)"
  by (simp add: retry_events_def upt_conv_Cons del: upt_Suc)

lemma retry_events_done: "n < a \<Longrightarrow> retry_events url cfg n d a = []"
  by (simp add: retry_events_def)

lemma attempts_exhausted:
  "retryAttempts c < a \<Longrightarrow> attempts net c url cfg a lastError w = (Inl lastError, w)"
  by (subst attempts.simps) simp

lemma attempts_returns:
  "a \<le> retryAttempts c \<Longrightarrow> attempt_result (net (calls w)) = Inr data \<Longrightarrow>
   attempts net c url cfg a lastError w =
     (Inr data, w\<lparr>calls := calls w + 1, trace := trace w @ [Fetch url cfg]\<rparr>)"
  by (subst attempts.simps) (simp add: fetch_def)

lemma attempts_auth_error:
  "a \<le> retryAttempts c \<Longrightarrow> attempt_result (net (calls w)) = Inl m \<Longrightarrow> auth_error m \<Longrightarrow>
   attempts net c url cfg a lastError w =
     (Inl (Error m), w\<lparr>calls := calls w + 1, trace := trace w @ [Fetch url cfg]\<rparr>)"
  by (subst attempts.simps) (simp add: fetch_def)

lemma attempts_retries:
  "a \<le> retryAttempts c \<Longrightarrow> attempt_result (net (calls w)) = Inl m \<Longrightarrow> \<not> auth_error m \<Longrightarrow>
   attempts net c url cfg a lastError w =
     attempts net c url cfg (Suc a) (Error m)
       (w\<lparr>calls := calls w + 1,
          trace := trace w @ Fetch url cfg # (if a < retryAttempts c then [Delay (retryDelay c * a)] else [])\<rparr>)"
  by (subst attempts.simps) (simp add: fetch_def sleep_def)

lemma attempts_all_fail:
  assumes "a \<le> retryAttempts c"
    and "\<forall>i. i \<le> retryAttempts c - a \<longrightarrow>
           (\<exists>m. attempt_result (net (calls w + i)) = Inl m \<and> \<not> auth_error m)"
  shows "attempts net c url cfg a lastError w =
     (Inl (Error (failure_message (net (calls w + (retryAttempts c - a))))),
      w\<lparr>calls := calls w + (Suc (retryAttempts c) - a),
        trace := trace w @ retry_events url cfg (retryAttempts c) (retryDelay c) a\<rparr>)"
  using assms
proof (induction "retryAttempts c - a" arbitrary: a w lastError)
  case 0
  then have a: "a = retryAttempts c" by simp
  from "0.prems"(2) obtain m where m: "attempt_result (net (calls w)) = Inl m" "\<not> auth_error m"
    by (metis add.right_neutral le0)
  show ?case
    using "0.prems"(1) m
    by (simp add: attempts_retries attempts_exhausted a failure_message_def
        retry_events_step retry_events_done)
next
  case (Suc k)
  then have lt: "a < retryAttempts c" by simp
  from Suc.prems(2) obtain m where m: "attempt_result (net (calls w)) = Inl m" "\<not> auth_error m"
    by (metis add.right_neutral le0)
  let ?w = "w\<lparr>calls := calls w + 1,
          trace := trace w @ Fetch url cfg # (if a < retryAttempts c then [Delay (retryDelay c * a)] else [])\<rparr>"
  have k: "k = retryAttempts c - Suc a" using Suc.hyps(2) by simp
  have le: "Suc a \<le> retryAttempts c" using lt by simp
  have all: "\<forall>i. i \<le> retryAttempts c - Suc a \<longrightarrow>
           (\<exists>m. attempt_result (net (calls ?w + i)) = Inl m \<and> \<not> auth_error m)"
  proof (intro allI impI)
    fix i assume "i \<le> retryAttempts c - Suc a"
    then have "Suc i \<le> retryAttempts c - a" using lt by simp
    with Suc.prems(2) have "\<exists>m. attempt_result (net (calls w + Suc i)) = Inl m \<and> \<not> auth_error m"
      by blast
    then show "\<exists>m. attempt_result (net (calls ?w + i)) = Inl m \<and> \<not> auth_error m"
      by simp
  qed
  have idx: "calls ?w + (retryAttempts c - Suc a) = calls w + (retryAttempts c - a)"
    using lt by simp
  have step: "attempts net c url cfg a lastError w = attempts net c url cfg (Suc a) (Error m) ?w"
    using lt m by (simp add: attempts_retries)
  show ?case
    unfolding step Suc.hyps(1)[OF k le all, of "Error m"] idx
    using lt by (simp add: retry_events_step[of a] Suc_diff_le)
qed

lemma transient_fails: "transient fr \<Longrightarrow> \<exists>m. attempt_result fr = Inl m"
  by (cases fr) (auto simp: transient_def attempt_result_def ok_def http_error_def Let_def split: sum.splits)

lemma makeRequest_sends:
  "isOnline c \<or> opt_method opts = Some ''GET'' \<Longrightarrow>
   makeRequest net c endpoint opts w =
     (let (r, w') = attempts net c (baseURL c @ endpoint) (build_config c opts) 1 Undefined w
      in (case r of Inl e \<Rightarrow> Rejected e | Inr data \<Rightarrow> Resolved data, c, w'))"
  by (auto simp: makeRequest_def Let_def)

lemma makeRequest_auth_error:
  assumes "isOnline c \<or> opt_method opts = Some ''GET''"
    and "0 < retryAttempts c"
    and "attempt_result (net (calls w)) = Inl m"
    and "auth_error m"
  shows "makeRequest net c endpoint opts w =
     (Rejected (Error m), c,
      w\<lparr>calls := calls w + 1,
        trace := trace w @ [Fetch (baseURL c @ endpoint) (build_config c opts)]\<rparr>)"
proof -
  have le: "1 \<le> retryAttempts c" using assms(2) by simp
  show ?thesis
    using attempts_auth_error[where net = net and w = w and url = "baseURL c @ endpoint"
        and cfg = "build_config c opts" and lastError = Undefined, OF le assms(3) assms(4)]
    by (simp add: makeRequest_sends[OF assms(1)])
qed

text \<open>
  A request that is sent, all of whose attempts fail with a transient failure (a network
  error or a 5xx response) whose error message contains neither "401" nor "403", is
  attempted exactly \<open>retryAttempts\<close> times; the wait after attempt \<open>k\<close> is
  \<open>retryDelay * k\<close>, there is none before the first attempt and none after the last,
  and the last attempt's error is the one that surfaces.
\<close>

lemma transient_failures_exhaust_retries:
  assumes "isOnline c \<or> opt_method opts = Some ''GET''"
    and "0 < retryAttempts c"
    and "\<forall>i<retryAttempts c. transient (net (calls w + i)) \<and> \<not> auth_error (failure_message (net (calls w + i)))"
  shows "makeRequest net c endpoint opts w =
     (Rejected (Error (failure_message (net (calls w + (retryAttempts c - 1))))), c,
      w\<lparr>calls := calls w + retryAttempts c,
        trace := trace w @
          concat (map (\<lambda>attempt. Fetch (baseURL c @ endpoint) (build_config c opts)
                                  # (if attempt < retryAttempts c then [Delay (retryDelay c * attempt)] else []))
                      [1..<Suc (retryAttempts c)])\<rparr>)"
proof -
  have le: "1 \<le> retryAttempts c" using assms(2) by simp
  have all: "\<forall>i. i \<le> retryAttempts c - 1 \<longrightarrow>
      (\<exists>m. attempt_result (net (calls w + i)) = Inl m \<and> \<not> auth_error m)"
  proof (intro allI impI)
    fix i assume "i \<le> retryAttempts c - 1"
    then have i: "i < retryAttempts c" using assms(2) by simp
    with assms(3) have t: "transient (net (calls w + i))"
      and n: "\<not> auth_error (failure_message (net (calls w + i)))" by simp_all
    from transient_fails[OF t] obtain m where m: "attempt_result (net (calls w + i)) = Inl m" ..
    with n show "\<exists>m. attempt_result (net (calls w + i)) = Inl m \<and> \<not> auth_error m"
      by (simp add: failure_message_def)
  qed
  show ?thesis
    using attempts_all_fail[OF le all, of "baseURL c @ endpoint" "build_config c opts" Undefined] assms(2)
    by (simp add: makeRequest_sends[OF assms(1)] retry_events_def)
qed

text \<open>With the constructor's values: three attempts, waits of 1000 and 2000 milliseconds.\<close>

lemma transient_failures_exhaust_retries_example:
  "makeRequest (always (Rejects ''Failed to fetch'')) production ''/api/quotes'' no_options start =
     (Rejected (Error ''Failed to fetch''), production,
      \<lparr>calls = 3, promises = 0,
       trace = [Fetch ''https://erp.example.com/api/quotes'' (build_config production no_options),
                Delay 1000,
                Fetch ''https://erp.example.com/api/quotes'' (build_config production no_options),
                Delay 2000,
                Fetch ''https://erp.example.com/api/quotes'' (build_config production no_options)]\<rparr>)"
proof -
  have online: "isOnline production \<or> opt_method no_options = Some ''GET''"
    by (simp add: production_def new_client_def)
  have n: "0 < retryAttempts production" by (simp add: production_def new_client_def)
  have m: "\<not> auth_error ''Failed to fetch''"
    by (simp add: auth_error_def str_includes_def sublist_Cons_right)
  have all: "\<forall>i<retryAttempts production.
      transient (always (Rejects ''Failed to fetch'') (calls start + i)) \<and>
      \<not> auth_error (failure_message (always (Rejects ''Failed to fetch'') (calls start + i)))"
    using m by (simp add: always_def transient_def failure_message_def attempt_result_def)
  have fm: "failure_message (always (Rejects ''Failed to fetch'') k) = ''Failed to fetch''" for k
    by (simp add: always_def failure_message_def attempt_result_def)
  show ?thesis
    using transient_failures_exhaust_retries[OF online n all, of "''/api/quotes''"]
    by (simp add: fm production_def new_client_def start_def upt_rec)
qed

text \<open>
  Claim C4 on the code: every \<open>fetch\<close> answered with 503 and the message "upstream 401".
  The \<open>catch\<close> block, which is not to retry authentication errors, finds "401" in the
  message of this server error and rethrows: one attempt, where the claim has three.
\<close>

theorem auth_like_message_stops_retry:
  "transient (reply 503 ''Service Unavailable'' (Parsed (JObj [(''message'', JStr ''upstream 401'')]))) \<and>
   makeRequest (always (reply 503 ''Service Unavailable'' (Parsed (JObj [(''message'', JStr ''upstream 401'')]))))
       production ''/api/quotes'' no_options start =
     (Rejected (Error ''HTTP error! status: 503, message: upstream 401''), production,
      \<lparr>calls = 1, promises = 0,
       trace = [Fetch ''https://erp.example.com/api/quotes'' (build_config production no_options)]\<rparr>)"
proof -
  have r: "attempt_result (always (reply 503 ''Service Unavailable'' (Parsed (JObj [(''message'', JStr ''upstream 401'')]))) (calls start))
      = Inl ''HTTP error! status: 503, message: upstream 401''"
    by (simp add: always_def attempt_result_def reply_def ok_def http_error_def truthy_opt_def digits.simps)
  have a: "auth_error ''HTTP error! status: 503, message: upstream 401''"
    by (simp add: auth_error_def str_includes_def sublist_Cons_right)
  have online: "isOnline production \<or> opt_method no_options = Some ''GET''"
    by (simp add: production_def new_client_def)
  have n: "1 \<le> retryAttempts production" by (simp add: production_def new_client_def)
  have t: "transient (reply 503 ''Service Unavailable'' (Parsed (JObj [(''message'', JStr ''upstream 401'')])))"
    by (simp add: transient_def reply_def)
  have n0: "0 < retryAttempts production" by (simp add: production_def new_client_def)
  note run = makeRequest_auth_error[where w = start and endpoint = "''/api/quotes''"
      and net = "always (reply 503 ''Service Unavailable'' (Parsed (JObj [(''message'', JStr ''upstream 401'')])))",
      OF online n0 r a]
  from t run show ?thesis
    by (simp add: start_def production_def new_client_def)
qed

lemma get_not_null: "v \<noteq> JNull \<Longrightarrow> \<exists>x. get v k = Inr x"
  by (cases v) simp_all

lemma http_error_text:
  assumes "json_result r \<noteq> Parsed JNull"
  shows "\<exists>rest. http_error r = Inl (''HTTP error! status: '' @ digits (status r) @ rest)"
proof (cases "json_result r")
  case (Unparsable m)
  then show ?thesis by (simp add: http_error_def)
next
  case (Parsed j)
  with assms have "j \<noteq> JNull" by simp
  from get_not_null[OF this] obtain x where "get j ''message'' = Inr x" ..
  with Parsed show ?thesis by (simp add: http_error_def)
qed

lemma auth_status_is_auth_error:
  assumes "status r = 401 \<or> status r = 403" and "json_result r \<noteq> Parsed JNull"
  shows "\<exists>m. attempt_result (Responds r) = Inl m \<and> auth_error m"
proof -
  from http_error_text[OF assms(2)] obtain rest where
    m: "http_error r = Inl (''HTTP error! status: '' @ digits (status r) @ rest)" ..
  have nok: "\<not> ok r" using assms(1) by (auto simp: ok_def)
  have d: "digits 401 = ''401''" "digits 403 = ''403''"
    by (simp_all add: digits.simps)
  have "sublist ''401'' (''HTTP error! status: '' @ ''401'' @ rest)"
    and "sublist ''403'' (''HTTP error! status: '' @ ''403'' @ rest)"
    by (rule sublist_appendI)+
  then have "auth_error (''HTTP error! status: '' @ digits (status r) @ rest)"
    using assms(1) d unfolding auth_error_def str_includes_def by metis
  with m nok show ?thesis by (simp add: attempt_result_def)
qed

text \<open>
  A request that is sent and answered with status 401 or 403 (the error body not being
  the JSON value \<open>null\<close>) is not retried: one \<open>fetch\<close>, no wait, and the error surfaces.
\<close>

lemma auth_failure_not_retried:
  assumes "isOnline c \<or> opt_method opts = Some ''GET''"
    and "0 < retryAttempts c"
    and "net (calls w) = Responds r"
    and "status r = 401 \<or> status r = 403"
    and "json_result r \<noteq> Parsed JNull"
  shows "makeRequest net c endpoint opts w =
     (Rejected (Error (failure_message (net (calls w)))), c,
      w\<lparr>calls := calls w + 1,
        trace := trace w @ [Fetch (baseURL c @ endpoint) (build_config c opts)]\<rparr>)"
proof -
  from auth_status_is_auth_error[OF assms(4) assms(5)] obtain m where
    m: "attempt_result (net (calls w)) = Inl m" and a: "auth_error m"
    using assms(3) by auto
  from m have "failure_message (net (calls w)) = m" by (simp add: failure_message_def)
  with makeRequest_auth_error[where net = net and w = w, OF assms(1) assms(2) m a]
  show ?thesis by simp
qed

text \<open>A login answered with 401.\<close>

lemma auth_failure_not_retried_example:
  "makeRequest (always (reply 401 ''Unauthorized'' (Parsed (JObj [(''error'', JStr ''Invalid credentials'')]))))
      production ''/api/auth/login''
      \<lparr>opt_headers = None, opt_method = Some ''POST'', opt_body = Some (JObj [(''username'', JStr ''t'')])\<rparr> start =
     (Rejected (Error ''HTTP error! status: 401, message: Unauthorized''), production,
      \<lparr>calls = 1, promises = 0,
       trace = [Fetch ''https://erp.example.com/api/auth/login''
                  (build_config production
                     \<lparr>opt_headers = None, opt_method = Some ''POST'',
                        opt_body = Some (JObj [(''username'', JStr ''t'')])\<rparr>)]\<rparr>)"
proof -
  let ?r = "\<lparr>status = 401, statusText = ''Unauthorized'',
              json_result = Parsed (JObj [(''error'', JStr ''Invalid credentials'')])\<rparr>"
  let ?net = "always (reply 401 ''Unauthorized'' (Parsed (JObj [(''error'', JStr ''Invalid credentials'')])))"
  have online: "isOnline production \<or> opt_method \<lparr>opt_headers = None, opt_method = Some ''POST'',
      opt_body = Some (JObj [(''username'', JStr ''t'')])\<rparr> = Some ''GET''"
    by (simp add: production_def new_client_def)
  have n: "0 < retryAttempts production" by (simp add: production_def new_client_def)
  have r: "?net (calls start) = Responds ?r" by (simp add: always_def reply_def)
  have s: "status ?r = 401 \<or> status ?r = 403" by simp
  have b: "json_result ?r \<noteq> Parsed JNull" by simp
  have fm: "failure_message (?net k) = ''HTTP error! status: 401, message: Unauthorized''" for k
    by (simp add: always_def reply_def failure_message_def attempt_result_def ok_def http_error_def truthy_opt_def digits.simps)
  show ?thesis
    using auth_failure_not_retried[where net = ?net and w = start and endpoint = "''/api/auth/login''",
        OF online n r s b]
    by (simp add: fm production_def new_client_def start_def)
qed

lemma not_found_is_retried:
  "makeRequest (always (reply 404 ''Not Found'' (Parsed (JObj [(''error'', JStr ''no such product'')]))))
      production ''/api/inventory/products/9'' no_options start =
     (Rejected (Error ''HTTP error! status: 404, message: Not Found''), production,
      \<lparr>calls = 3, promises = 0,
       trace = [Fetch ''https://erp.example.com/api/inventory/products/9'' (build_config production no_options),
                Delay 1000,
                Fetch ''https://erp.example.com/api/inventory/products/9'' (build_config production no_options),
                Delay 2000,
                Fetch ''https://erp.example.com/api/inventory/products/9'' (build_config production no_options)]\<rparr>)"
proof -
  let ?net = "always (reply 404 ''Not Found'' (Parsed (JObj [(''error'', JStr ''no such product'')])))"
  have r: "attempt_result (?net k) = Inl ''HTTP error! status: 404, message: Not Found''" for k
    by (simp add: always_def reply_def attempt_result_def ok_def http_error_def truthy_opt_def digits.simps)
  have a: "\<not> auth_error ''HTTP error! status: 404, message: Not Found''"
    by (simp add: auth_error_def str_includes_def sublist_Cons_right)
  have online: "isOnline production \<or> opt_method no_options = Some ''GET''"
    by (simp add: production_def new_client_def)
  have n: "1 \<le> retryAttempts production" by (simp add: production_def new_client_def)
  have all: "\<forall>i. i \<le> retryAttempts production - 1 \<longrightarrow>
      (\<exists>m. attempt_result (?net (calls start + i)) = Inl m \<and> \<not> auth_error m)"
    using r a by simp
  have fm: "failure_message (?net k) = ''HTTP error! status: 404, message: Not Found''" for k
    by (simp add: failure_message_def r)
  show ?thesis
    using attempts_all_fail[where net = ?net and w = start and lastError = Undefined
        and url = "baseURL production @ ''/api/inventory/products/9''"
        and cfg = "build_config production no_options", OF n all]
    by (simp add: makeRequest_sends[OF online] fm retry_events_def)
       (simp add: production_def new_client_def start_def upt_rec)
qed

lemma bad_request_is_retried:
  "makeRequest (always (reply 400 ''Bad Request'' (Parsed (JObj [(''error'', JStr ''sku is required'')]))))
      production ''/api/inventory/products'' no_options start =
     (Rejected (Error ''HTTP error! status: 400, message: Bad Request''), production,
      \<lparr>calls = 3, promises = 0,
       trace = [Fetch ''https://erp.example.com/api/inventory/products'' (build_config production no_options),
                Delay 1000,
                Fetch ''https://erp.example.com/api/inventory/products'' (build_config production no_options),
                Delay 2000,
                Fetch ''https://erp.example.com/api/inventory/products'' (build_config production no_options)]\<rparr>)"
proof -
  let ?net = "always (reply 400 ''Bad Request'' (Parsed (JObj [(''error'', JStr ''sku is required'')])))"
  have r: "attempt_result (?net k) = Inl ''HTTP error! status: 400, message: Bad Request''" for k
    by (simp add: always_def reply_def attempt_result_def ok_def http_error_def truthy_opt_def digits.simps)
  have a: "\<not> auth_error ''HTTP error! status: 400, message: Bad Request''"
    by (simp add: auth_error_def str_includes_def sublist_Cons_right)
  have online: "isOnline production \<or> opt_method no_options = Some ''GET''"
    by (simp add: production_def new_client_def)
  have n: "1 \<le> retryAttempts production" by (simp add: production_def new_client_def)
  have all: "\<forall>i. i \<le> retryAttempts production - 1 \<longrightarrow>
      (\<exists>m. attempt_result (?net (calls start + i)) = Inl m \<and> \<not> auth_error m)"
    using r a by simp
  have fm: "failure_message (?net k) = ''HTTP error! status: 400, message: Bad Request''" for k
    by (simp add: failure_message_def r)
  show ?thesis
    using attempts_all_fail[where net = ?net and w = start and lastError = Undefined
        and url = "baseURL production @ ''/api/inventory/products''"
        and cfg = "build_config production no_options", OF n all]
    by (simp add: makeRequest_sends[OF online] fm retry_events_def)
       (simp add: production_def new_client_def start_def upt_rec)
qed

text \<open>
  Claim C3 on the code: a 404 and a 400. The \<open>catch\<close> block looks for "401" and "403"
  only, so each is attempted three times, with both waits, where the claim has one
  attempt and no wait.
\<close>

theorem client_errors_are_retried:
  "makeRequest (always (reply 404 ''Not Found'' (Parsed (JObj [(''error'', JStr ''no such product'')]))))
      production ''/api/inventory/products/9'' no_options start =
     (Rejected (Error ''HTTP error! status: 404, message: Not Found''), production,
      \<lparr>calls = 3, promises = 0,
       trace = [Fetch ''https://erp.example.com/api/inventory/products/9'' (build_config production no_options),
                Delay 1000,
                Fetch ''https://erp.example.com/api/inventory/products/9'' (build_config production no_options),
                Delay 2000,
                Fetch ''https://erp.example.com/api/inventory/products/9'' (build_config production no_options)]\<rparr>)
   \<and>
   makeRequest (always (reply 400 ''Bad Request'' (Parsed (JObj [(''error'', JStr ''sku is required'')]))))
      production ''/api/inventory/products'' no_options start =
     (Rejected (Error ''HTTP error! status: 400, message: Bad Request''), production,
      \<lparr>calls = 3, promises = 0,
       trace = [Fetch ''https://erp.example.com/api/inventory/products'' (build_config production no_options),
                Delay 1000,
                Fetch ''https://erp.example.com/api/inventory/products'' (build_config production no_options),
                Delay 2000,
                Fetch ''https://erp.example.com/api/inventory/products'' (build_config production no_options)]\<rparr>)"
  using not_found_is_retried bad_request_is_retried by (rule conjI)

text \<open>
  Why the body of a 401 must not be \<open>null\<close>: reading \<open>errorData.message\<close> then throws a TypeError
  before the status reaches the message, and the attempt is retried like any failure.
\<close>

lemma null_body_401_is_retried:
  "makeRequest (always (reply 401 ''Unauthorized'' (Parsed JNull))) production ''/api/quotes'' no_options start =
     (Rejected (Error (null_read ''message'')), production,
      \<lparr>calls = 3, promises = 0,
       trace = [Fetch ''https://erp.example.com/api/quotes'' (build_config production no_options),
                Delay 1000,
                Fetch ''https://erp.example.com/api/quotes'' (build_config production no_options),
                Delay 2000,
                Fetch ''https://erp.example.com/api/quotes'' (build_config production no_options)]\<rparr>)"
proof -
  let ?net = "always (reply 401 ''Unauthorized'' (Parsed JNull))"
  have r: "attempt_result (?net k) = Inl (null_read ''message'')" for k
    by (simp add: always_def reply_def attempt_result_def ok_def http_error_def)
  have a: "\<not> auth_error (null_read ''message'')"
    by (simp add: auth_error_def str_includes_def null_read_def sublist_Cons_right)
  have online: "isOnline production \<or> opt_method no_options = Some ''GET''"
    by (simp add: production_def new_client_def)
  have n: "1 \<le> retryAttempts production" by (simp add: production_def new_client_def)
  have all: "\<forall>i. i \<le> retryAttempts production - 1 \<longrightarrow>
      (\<exists>m. attempt_result (?net (calls start + i)) = Inl m \<and> \<not> auth_error m)"
    using r a by simp
  have fm: "failure_message (?net k) = null_read ''message''" for k
    by (simp add: failure_message_def r)
  show ?thesis
    using attempts_all_fail[where net = ?net and w = start and lastError = Undefined
        and url = "baseURL production @ ''/api/quotes''"
        and cfg = "build_config production no_options", OF n all]
    by (simp add: makeRequest_sends[OF online] fm retry_events_def)
       (simp add: production_def new_client_def start_def upt_rec)
qed

section \<open>Requests made while offline\<close>

lemma makeRequest_queues:
  "\<not> isOnline c \<Longrightarrow> opt_method opts \<noteq> Some ''GET'' \<Longrightarrow>
   makeRequest net c endpoint opts w =
     (Pending (promises w),
      c\<lparr>requestQueue := requestQueue c @
          [\<lparr>q_url = baseURL c @ endpoint, q_config = build_config c opts, q_handle = promises w\<rparr>]\<rparr>,
      w\<lparr>promises := promises w + 1\<rparr>)"
  by (simp add: makeRequest_def queueRequest_def Let_def)

text \<open>An offline request that names the method \<open>GET\<close> passes the guard and is sent.\<close>

lemma offline_explicit_get_is_sent:
  "0 < retryAttempts c \<Longrightarrow> attempt_result (net (calls w)) = Inr data \<Longrightarrow>
   makeRequest net (c\<lparr>isOnline := False\<rparr>) endpoint (opts\<lparr>opt_method := Some ''GET''\<rparr>) w =
     (Resolved data, c\<lparr>isOnline := False\<rparr>,
      w\<lparr>calls := calls w + 1,
        trace := trace w @ [Fetch (baseURL c @ endpoint)
                              (build_config (c\<lparr>isOnline := False\<rparr>) (opts\<lparr>opt_method := Some ''GET''\<rparr>))]\<rparr>)"
proof -
  assume n: "0 < retryAttempts c" and r: "attempt_result (net (calls w)) = Inr data"
  have le: "1 \<le> retryAttempts (c\<lparr>isOnline := False\<rparr>)" using n by simp
  have g: "isOnline (c\<lparr>isOnline := False\<rparr>) \<or> opt_method (opts\<lparr>opt_method := Some ''GET''\<rparr>) = Some ''GET''"
    by simp
  show ?thesis
    using attempts_returns[where net = net and w = w and c = "c\<lparr>isOnline := False\<rparr>", OF le r]
    by (simp add: makeRequest_sends[OF g])
qed

text \<open>
  Claim C1 on the code: \<open>getProducts()\<close> while offline. The call passes no \<open>method\<close>, the
  test \<open>options.method !== 'GET'\<close> holds for \<open>undefined\<close>, and the read is queued: no
  \<open>fetch\<close>, a pending promise.
\<close>

theorem offline_read_is_queued:
  "getProducts net clock offline [] start =
     ((Pending 0,
       offline\<lparr>requestQueue :=
         [\<lparr>q_url = ''http://localhost:3000/api/inventory/products'',
           q_config = build_config offline no_options, q_handle = 0\<rparr>]\<rparr>),
      \<lparr>calls = 0, promises = 1, trace = []\<rparr>)"
proof -
  have off: "\<not> isOnline offline" by (simp add: offline_def new_client_def)
  have m: "opt_method no_options \<noteq> Some ''GET''" by (simp add: no_options_def)
  show ?thesis
    by (simp add: getProducts_def makeRequest_queues[OF off m] await_def)
       (simp add: offline_def new_client_def start_def)
qed

text \<open>The queue does not enter the request configuration.\<close>

lemma build_config_queue [simp]: "build_config (c\<lparr>requestQueue := q\<rparr>) opts = build_config c opts"
  by (simp add: build_config_def Let_def split: option.splits)

lemma issue_offline:
  assumes "\<not> isOnline c" and "\<forall>r\<in>set reqs. opt_method (snd r) \<noteq> Some ''GET''"
  shows "issue net reqs c w =
     (map Pending [promises w..<promises w + length reqs],
      c\<lparr>requestQueue := requestQueue c @
          map (\<lambda>i. \<lparr>q_url = baseURL c @ fst (reqs ! i), q_config = build_config c (snd (reqs ! i)),
                      q_handle = promises w + i\<rparr>) [0..<length reqs]\<rparr>,
      w\<lparr>promises := promises w + length reqs\<rparr>)"
  using assms
proof (induction reqs arbitrary: c w)
  case Nil
  then show ?case by simp
next
  case (Cons r rs)
  let ?c1 = "c\<lparr>requestQueue := requestQueue c @
      [\<lparr>q_url = baseURL c @ fst r, q_config = build_config c (snd r), q_handle = promises w\<rparr>]\<rparr>"
  let ?w1 = "w\<lparr>promises := promises w + 1\<rparr>"
  have m: "makeRequest net c (fst r) (snd r) w = (Pending (promises w), ?c1, ?w1)"
    using Cons.prems by (simp add: makeRequest_queues)
  have off: "\<not> isOnline ?c1" using Cons.prems by simp
  have rest: "\<forall>r\<in>set rs. opt_method (snd r) \<noteq> Some ''GET''" using Cons.prems by simp
  have idx: "[0..<length (r # rs)] = 0 # map Suc [0..<length rs]"
    by (simp add: upt_conv_Cons map_Suc_upt del: upt_Suc)
  have hs: "[promises w..<promises w + length (r # rs)] = promises w # [Suc (promises w)..<Suc (promises w) + length rs]"
    by (simp add: upt_conv_Cons del: upt_Suc)
  note ih = Cons.IH[OF off rest, of ?w1]
  have "issue net (r # rs) c w =
      (case issue net rs ?c1 ?w1 of (ps, c2, w2) \<Rightarrow> (Pending (promises w) # ps, c2, w2))"
    by (simp add: m)
  also have "\<dots> = (Pending (promises w) # map Pending [promises ?w1..<promises ?w1 + length rs],
      ?c1\<lparr>requestQueue := requestQueue ?c1 @
          map (\<lambda>i. \<lparr>q_url = baseURL ?c1 @ fst (rs ! i), q_config = build_config ?c1 (snd (rs ! i)),
                      q_handle = promises ?w1 + i\<rparr>) [0..<length rs]\<rparr>,
      ?w1\<lparr>promises := promises ?w1 + length rs\<rparr>)"
    unfolding ih by simp
  finally show ?case
    unfolding idx hs by (simp add: comp_def del: upt_Suc)
qed

lemma settle_cases:
  "settle h (replay_result fr) =
     (case fr of
        Rejects m \<Rightarrow> Reject h (Error m)
      | Responds r \<Rightarrow>
          (case json_result r of
             Unparsable m \<Rightarrow> Reject h (Error m)
           | Parsed data \<Rightarrow> Resolve h data))"
  by (simp add: settle_def replay_result_def split: fetch_result.splits parsed.splits)

text \<open>
  Claim C6. Writes made while offline are queued in the order of the calls, each with a
  pending promise of its own; when connectivity returns, the \<open>online\<close> listener drains
  the queue from its head: the \<open>i\<close>-th \<open>fetch\<close> is for the \<open>i\<close>-th entry, and after it that
  entry's promise is resolved with the parsed body, or rejected when \<open>fetch\<close> or the
  parsing threw. A rejection touches that entry's promise alone, and the drain goes on
  with the next entry until the queue is empty.
\<close>

theorem queued_requests_replay_in_order:
  assumes "\<not> isOnline c"
    and "\<forall>r\<in>set reqs. opt_method (snd r) \<noteq> Some ''GET''"
  shows "issue net reqs c w =
           (map Pending [promises w..<promises w + length reqs],
            c\<lparr>requestQueue := requestQueue c @
                map (\<lambda>i. \<lparr>q_url = baseURL c @ fst (reqs ! i), q_config = build_config c (snd (reqs ! i)),
                            q_handle = promises w + i\<rparr>) [0..<length reqs]\<rparr>,
            w\<lparr>promises := promises w + length reqs\<rparr>)
         \<and> on_online net c' w' =
           (c'\<lparr>isOnline := True, requestQueue := []\<rparr>,
            w'\<lparr>calls := calls w' + length (requestQueue c'),
               trace := trace w' @
                 concat (map (\<lambda>i. [Fetch (q_url (requestQueue c' ! i)) (q_config (requestQueue c' ! i)),
                                    (case net (calls w' + i) of
                                       Rejects m \<Rightarrow> Reject (q_handle (requestQueue c' ! i)) (Error m)
                                     | Responds r \<Rightarrow>
                                         (case json_result r of
                                            Unparsable m \<Rightarrow> Reject (q_handle (requestQueue c' ! i)) (Error m)
                                          | Parsed data \<Rightarrow> Resolve (q_handle (requestQueue c' ! i)) data))])
                             [0..<length (requestQueue c')])\<rparr>)"
  using issue_offline[OF assms, of net w] processQueue_run[of net "c'\<lparr>isOnline := True\<rparr>" w']
  by (simp add: replay_events_def on_online_def settle_cases)

text \<open>Two writes made offline; on replay the first fails and the second is still replayed.\<close>

theorem queued_requests_replay_in_order_witness:
  "issue (replies []) two_writes offline start =
     ([Pending 0, Pending 1], after_two_writes, \<lparr>calls = 0, promises = 2, trace = []\<rparr>)
   \<and> on_online (replies [Rejects ''Failed to fetch'', reply 500 ''Internal Server Error'' (Parsed (JBool True))])
        after_two_writes \<lparr>calls = 0, promises = 2, trace = []\<rparr> =
     (after_two_writes\<lparr>isOnline := True, requestQueue := []\<rparr>,
      \<lparr>calls = 2, promises = 2,
       trace = [Fetch ''http://localhost:3000/api/quotes'' (build_config offline (snd (two_writes ! 0))),
                Reject 0 (Error ''Failed to fetch''),
                Fetch ''http://localhost:3000/api/customers/3'' (build_config offline (snd (two_writes ! 1))),
                Resolve 1 (JBool True)]\<rparr>)"
proof -
  have 1: "\<not> isOnline offline" by (simp add: offline_def new_client_def)
  have 2: "\<forall>r\<in>set two_writes. opt_method (snd r) \<noteq> Some ''GET''" by (simp add: two_writes_def)
  have q: "requestQueue after_two_writes =
        [\<lparr>q_url = ''http://localhost:3000/api/quotes'', q_config = build_config offline (snd (two_writes ! 0)), q_handle = 0\<rparr>,
         \<lparr>q_url = ''http://localhost:3000/api/customers/3'', q_config = build_config offline (snd (two_writes ! 1)), q_handle = 1\<rparr>]"
    by (simp add: after_two_writes_def)
  have i: "issue (replies []) two_writes offline start =
     ([Pending 0, Pending 1], after_two_writes, \<lparr>calls = 0, promises = 2, trace = []\<rparr>)"
    using queued_requests_replay_in_order[where net = "replies []" and w = start, OF 1 2, THEN conjunct1]
    by (simp add: after_two_writes_def start_def upt_rec)
       (simp add: two_writes_def offline_def new_client_def)
  have d: "on_online (replies [Rejects ''Failed to fetch'', reply 500 ''Internal Server Error'' (Parsed (JBool True))])
        after_two_writes \<lparr>calls = 0, promises = 2, trace = []\<rparr> =
     (after_two_writes\<lparr>isOnline := True, requestQueue := []\<rparr>,
      \<lparr>calls = 2, promises = 2,
       trace = [Fetch ''http://localhost:3000/api/quotes'' (build_config offline (snd (two_writes ! 0))),
                Reject 0 (Error ''Failed to fetch''),
                Fetch ''http://localhost:3000/api/customers/3'' (build_config offline (snd (two_writes ! 1))),
                Resolve 1 (JBool True)]\<rparr>)"
    using queued_requests_replay_in_order[
        where net = "replies [Rejects ''Failed to fetch'', reply 500 ''Internal Server Error'' (Parsed (JBool True))]"
          and c' = after_two_writes and w' = "\<lparr>calls = 0, promises = 2, trace = []\<rparr>",
        OF 1 2, THEN conjunct2]
    by (simp add: q replies_def reply_def upt_rec)
  from i d show ?thesis by simp
qed

section \<open>The list call\<close>

lemma getProducts_online:
  "isOnline c \<Longrightarrow>
   getProducts net clock c q w =
     (let endpoint = ''/api/inventory/products'' @ (if q \<noteq> [] then ''?'' @ q else []);
          (r, w') = attempts net c (baseURL c @ endpoint) (build_config c no_options) 1 Undefined w
      in ((Resolved (getProducts_settled clock r), c), w'))"
  by (simp add: getProducts_def makeRequest_sends await_def Let_def split: prod.splits sum.splits)

lemma getProducts_never_rejects: "fst (fst (getProducts net clock c q w)) \<noteq> Rejected e"
  by (simp add: getProducts_def makeRequest_def queueRequest_def await_def Let_def
      split: prod.splits sum.splits promise.splits)

text \<open>
  Claim C8, amended. When the request of a list call resolves to an envelope whose
  \<open>success\<close> flag is false, whatever the backend and the token, the caller is not given
  the mock data, and the call does not reject.
\<close>

theorem failure_envelope_is_answered_without_mock:
  assumes "fst (makeRequest net c (''/api/inventory/products'' @ (if q \<noteq> [] then ''?'' @ q else []))
                  no_options w) = Resolved envelope"
    and "get envelope ''success'' = Inr (Some flag)"
    and "\<not> truthy flag"
  shows "fst (fst (getProducts net clock c q w)) \<noteq> Resolved (getMockProducts clock')
       \<and> fst (fst (getProducts net clock c q w)) \<noteq> Rejected e
       \<and> fst (fst (getProducts net clock c q w)) \<noteq> Pending h"
proof -
  define endpoint where "endpoint = ''/api/inventory/products'' @ (if q \<noteq> [] then ''?'' @ q else [])"
  obtain p c' w' where m: "makeRequest net c endpoint no_options w = (p, c', w')"
    by (cases "makeRequest net c endpoint no_options w") auto
  with assms(1) have p: "p = Resolved envelope" by (simp add: endpoint_def)
  have "getProducts net clock c q w = (await p (\<lambda>r. (Resolved (getProducts_settled clock r), c')) c', w')"
    using m by (simp add: getProducts_def endpoint_def Let_def)
  then have r: "fst (fst (getProducts net clock c q w)) = Resolved (getProducts_settled clock (Inr envelope))"
    by (simp add: p await_def)
  from assms(2) obtain kvs where "envelope = JObj kvs" by (cases envelope) auto
  then have "getProducts_settled clock (Inr envelope) \<noteq> getMockProducts clock'"
    using assms(2,3) by (simp add: getProducts_settled_def getMockProducts_def truthy_opt_def)
  with r show ?thesis by simp
qed

text \<open>A local backend without token answering \<open>{success: false, error: "db down"}\<close>.\<close>

theorem failure_envelope_is_answered_without_mock_witness:
  "fst (fst (getProducts
      (always (reply 200 ''OK'' (Parsed (JObj [(''success'', JBool False), (''error'', JStr ''db down'')]))))
      noon dev [] start)) \<noteq> Resolved (getMockProducts noon)
   \<and> fst (fst (getProducts
      (always (reply 200 ''OK'' (Parsed (JObj [(''success'', JBool False), (''error'', JStr ''db down'')]))))
      noon dev [] start)) \<noteq> Rejected (Error ''Failed to fetch'')"
proof -
  let ?env = "JObj [(''success'', JBool False), (''error'', JStr ''db down'')]"
  let ?net = "always (reply 200 ''OK'' (Parsed ?env))"
  have on: "isOnline dev \<or> opt_method no_options = Some ''GET''" by (simp add: dev_def new_client_def)
  have le: "1 \<le> retryAttempts dev" by (simp add: dev_def new_client_def)
  have r: "attempt_result (?net (calls start)) = Inr ?env"
    by (simp add: always_def reply_def attempt_result_def ok_def)
  have 1: "fst (makeRequest ?net dev (''/api/inventory/products'' @ (if [] \<noteq> ([]::string) then ''?'' @ [] else []))
                  no_options start) = Resolved ?env"
    using attempts_returns[where net = ?net and w = start, OF le r]
    by (simp add: makeRequest_sends[OF on] Let_def)
  have 2: "get ?env ''success'' = Inr (Some (JBool False))" by simp
  have 3: "\<not> truthy (JBool False)" by simp
  from failure_envelope_is_answered_without_mock[where q = "[]" and clock = noon and clock' = noon
      and e = "Error ''Failed to fetch''", OF 1 2 3]
  show ?thesis by simp
qed

text \<open>
  Claim C8 as stated fails: with the default local URL and no token, a failure envelope
  is not answered with the mock data.
\<close>

theorem failure_envelope_is_not_mocked:
  "baseURL dev = ''http://localhost:3000'' \<and> \<not> truthy (apiKey dev) \<and>
   fst (fst (getProducts
      (always (reply 200 ''OK'' (Parsed (JObj [(''success'', JBool False), (''error'', JStr ''db down'')]))))
      noon dev [] start)) \<noteq> Resolved (getMockProducts noon)"
proof -
  let ?env = "JObj [(''success'', JBool False), (''error'', JStr ''db down'')]"
  have le: "1 \<le> retryAttempts dev" by (simp add: dev_def new_client_def)
  have on: "isOnline dev" by (simp add: dev_def new_client_def)
  have r: "attempt_result (always (reply 200 ''OK'' (Parsed ?env)) (calls start)) = Inr ?env"
    by (simp add: always_def reply_def attempt_result_def ok_def)
  have "fst (fst (getProducts (always (reply 200 ''OK'' (Parsed ?env))) noon dev [] start))
      = Resolved (getProducts_settled noon (Inr ?env))"
    using attempts_returns[where net = "always (reply 200 ''OK'' (Parsed ?env))" and w = start, OF le r]
    by (simp add: getProducts_online[OF on] Let_def)
  then show ?thesis
    by (simp add: getProducts_settled_def truthy_opt_def getMockProducts_def dev_def new_client_def)
qed

text \<open>
  Claim C2 on the code: a client configured with a real URL and a key, the backend
  unreachable. After three attempts \<open>getProducts\<close> resolves with the mock data.
\<close>

theorem outage_is_masked_by_mock_data:
  "baseURL production = ''https://erp.example.com'' \<and> truthy (apiKey production) \<and>
   getProducts (always (Rejects ''Failed to fetch'')) noon production [] start =
     ((Resolved (getMockProducts noon), production),
      \<lparr>calls = 3, promises = 0,
       trace = [Fetch ''https://erp.example.com/api/inventory/products'' (build_config production no_options),
                Delay 1000,
                Fetch ''https://erp.example.com/api/inventory/products'' (build_config production no_options),
                Delay 2000,
                Fetch ''https://erp.example.com/api/inventory/products'' (build_config production no_options)]\<rparr>)"
proof -
  let ?net = "always (Rejects ''Failed to fetch'')"
  have on: "isOnline production" by (simp add: production_def new_client_def)
  have n: "1 \<le> retryAttempts production" by (simp add: production_def new_client_def)
  have r: "attempt_result (?net k) = Inl ''Failed to fetch''" for k
    by (simp add: always_def attempt_result_def)
  have a: "\<not> auth_error ''Failed to fetch''"
    by (simp add: auth_error_def str_includes_def sublist_Cons_right)
  have all: "\<forall>i. i \<le> retryAttempts production - 1 \<longrightarrow>
      (\<exists>m. attempt_result (?net (calls start + i)) = Inl m \<and> \<not> auth_error m)"
    using r a by simp
  have run: "getProducts ?net noon production [] start =
      ((Resolved (getMockProducts noon), production),
       start\<lparr>calls := calls start + (Suc (retryAttempts production) - 1),
         trace := trace start @ retry_events (baseURL production @ ''/api/inventory/products'')
           (build_config production no_options) (retryAttempts production) (retryDelay production) 1\<rparr>)"
    using attempts_all_fail[where net = ?net and w = start and lastError = Undefined
        and url = "baseURL production @ ''/api/inventory/products''"
        and cfg = "build_config production no_options", OF n all]
    by (simp add: getProducts_online[OF on] getProducts_settled_def)
  show ?thesis
    unfolding run
    by (simp add: production_def new_client_def start_def retry_events_def upt_rec)
qed

section \<open>The session\<close>

text \<open>
  Claim C7. A login whose \<open>authenticate\<close> response holds a token (a non-empty string) and
  a user record leaves the storage holding that token and the serialised user, the
  service's \<open>apiKey\<close> equal to the token, and the provider authenticated with that user.
\<close>

theorem login_stores_session:
  assumes "get response ''token'' = Inr (Some (JStr t))"
    and "t \<noteq> []"
    and "get response ''user'' = Inr (Some u)"
    and "truthy u"
  shows "login (Resolved response) (a, st, c) =
     (Resolved (JObj [(''success'', JBool True)]),
      a\<lparr>isAuthenticated := True, user := u, isLoading := False, error := None\<rparr>,
      \<lparr>visual_erp_token = Some t, visual_erp_user = Some (Serialized u)\<rparr>,
      c\<lparr>apiKey := JStr t\<rparr>)"
  using assms by (cases st) (simp add: login_def truthy_opt_def)

text \<open>The response \<open>{token: "abc", user: {username: "t"}}\<close>.\<close>

theorem login_stores_session_witness:
  "login (Resolved (JObj [(''token'', JStr ''abc''), (''user'', JObj [(''username'', JStr ''t'')])]))
         (initial_auth, no_storage, dev) =
     (Resolved (JObj [(''success'', JBool True)]),
      \<lparr>isAuthenticated = True, user = JObj [(''username'', JStr ''t'')], isLoading = False, error = None\<rparr>,
      \<lparr>visual_erp_token = Some ''abc'', visual_erp_user = Some (Serialized (JObj [(''username'', JStr ''t'')]))\<rparr>,
      dev\<lparr>apiKey := JStr ''abc''\<rparr>)"
proof -
  let ?resp = "JObj [(''token'', JStr ''abc''), (''user'', JObj [(''username'', JStr ''t'')])]"
  have 1: "get ?resp ''token'' = Inr (Some (JStr ''abc''))" by simp
  have 2: "''abc'' \<noteq> []" by simp
  have 3: "get ?resp ''user'' = Inr (Some (JObj [(''username'', JStr ''t'')]))" by simp
  have 4: "truthy (JObj [(''username'', JStr ''t'')])" by simp
  from login_stores_session[OF 1 2 3 4, of initial_auth no_storage dev]
  show ?thesis by (simp add: initial_auth_def)
qed

text \<open>
  A response without a user leaves the service and the storage as they were: \<open>login\<close>
  itself installs a token only together with a user.
\<close>

lemma login_without_user_keeps_service:
  assumes "get response ''user'' = Inr usr" and "\<not> truthy_opt usr"
  shows "snd (snd (snd (login (Resolved response) (a, st, c)))) = c
       \<and> fst (snd (snd (login (Resolved response) (a, st, c)))) = st
       \<and> isAuthenticated (fst (snd (login (Resolved response) (a, st, c)))) = isAuthenticated a"
proof -
  from assms(1) obtain tok where t: "get response ''token'' = Inr tok"
    by (cases response) auto
  show ?thesis
    using assms t by (simp add: login_def Let_def)
qed


section \<open>The quote form\<close>

text \<open>
  Claim C9. Whenever \<open>handleSubmit\<close> submits, the \<open>total\<close> of the submitted object is the
  sum JavaScript computes over the form's line items at that moment, \<open>quantity * unitPrice\<close>
  added from \<open>0\<close> in the order of the items, whatever \<open>total\<close> the form state held.
\<close>

theorem submitted_total_is_recomputed:
  assumes "handleSubmit ar editingQuote f = Some sub"
  shows "payload sub ''total'' =
     Some (Number (foldl (\<lambda>sum item. js_add ar sum (js_mul ar (quantity item) (unitPrice item)))
                          (js_zero ar) (lineItems f)))"
proof -
  have "quoteData ar f ''total'' =
     Some (Number (foldl (\<lambda>sum item. js_add ar sum (js_mul ar (quantity item) (unitPrice item)))
                          (js_zero ar) (lineItems f)))"
    by (simp add: quoteData_def)
  with assms show ?thesis
    by (auto simp: handleSubmit_def split: if_splits)
qed

text \<open>Line items 2 x 10 and 1 x 5 with a stale \<open>total\<close> of 999 in the state: 25 is submitted.\<close>

theorem submitted_total_is_recomputed_witness:
  "handleSubmit exact None stale_form = Some (CreateQuote (quoteData exact stale_form)) \<and>
   others stale_form ''total'' = Some (JNum ''999'') \<and>
   payload (CreateQuote (quoteData exact stale_form)) ''total'' = Some (Number 25)"
proof -
  have h: "handleSubmit exact None stale_form = Some (CreateQuote (quoteData exact stale_form))"
    by (simp add: handleSubmit_def validateForm_def stale_form_def trim_def is_space_def truthy_opt_def units_def)
  have s: "others stale_form ''total'' = Some (JNum ''999'')"
    by (simp add: stale_form_def)
  from submitted_total_is_recomputed[OF h] h s show ?thesis
    by (simp add: stale_form_def exact_def)
qed

end
